theory Spec2Isabelle
  imports Complex_Main "HOL-Library.Sublist" "HOL-Library.Multiset"
begin

section \<open>Crypto wallet forensics dashboard (ml2app.py)\<close>

text \<open>
  The script is a Streamlit page: every interaction re-runs it from the top.
  Python floats are read as real numbers (no rounding, no NaN, no infinities);
  a Python \<open>str\<close> is a HOL \<open>string\<close>, whose characters are 8-bit (the entropy
  loop and its lemmas are stated for any type of character); every exception the
  script can raise is a value of \<open>py_error\<close> on the left of a sum.
\<close>

subsection \<open>Errors\<close>

datatype py_error =
    FileNotFoundError
  | PermissionError
  | UnpicklingError
  | ZeroDivisionError
  | ValueError

text \<open>
  \<open>PermissionError\<close> and \<open>UnpicklingError\<close> stand for what \<open>open\<close> and
  \<open>pickle.load\<close> raise on a file that is there but cannot be read.
\<close>

text \<open>\<open>a / b\<close> on numbers: true division, raises on a zero divisor.\<close>

definition py_truediv :: "nat \<Rightarrow> nat \<Rightarrow> py_error + real" where
  "py_truediv a b = (if b = 0 then Inl ZeroDivisionError else Inr (real a / real b))"

text \<open>\<open>math.log2\<close>: raises \<open>ValueError\<close> (math domain error) outside the positive numbers.\<close>

definition py_log2 :: "real \<Rightarrow> py_error + real" where
  "py_log2 x = (if x \<le> 0 then Inl ValueError else Inr (log 2 x))"

subsection \<open>Feature extraction: \<open>get_features\<close>\<close>

text \<open>
  \<open>for x in set(address)\<close>: the set is walked in some order without repetition.
  The model walks the distinct characters in the order \<open>remdups\<close> leaves them;
  \<open>entropy_loop_any_order\<close> below shows that no other order changes the result.
\<close>

definition set_iter :: "'a list \<Rightarrow> 'a list" where
  "set_iter address = remdups address"

text \<open>
  The body of the loop, with the accumulator \<open>entropy\<close>:
  \<^verbatim>\<open>
      p_x = address.count(x) / len(address)
      entropy += - p_x * math.log2(p_x)
  \<close>
\<close>

fun entropy_loop :: "'a list \<Rightarrow> 'a list \<Rightarrow> real \<Rightarrow> py_error + real" where
  "entropy_loop address [] entropy = Inr entropy"
| "entropy_loop address (x # xs) entropy =
     (case py_truediv (count_list address x) (length address) of
        Inl e \<Rightarrow> Inl e
      | Inr p_x \<Rightarrow>
          (case py_log2 p_x of
             Inl e \<Rightarrow> Inl e
           | Inr l \<Rightarrow> entropy_loop address xs (entropy + (- p_x * l))))"

text \<open>\<open>str.startswith\<close>.\<close>

definition startswith :: "string \<Rightarrow> string \<Rightarrow> bool" where
  "startswith s p = prefix p s"

text \<open>The one-row frame that is returned, with its columns in the source's order.\<close>

record features =
  length_val :: nat
  entropy :: real
  chain_val :: int
  btc_type :: int

definition get_features :: "string \<Rightarrow> string \<Rightarrow> py_error + features" where
  "get_features address chain_input =
     (case (if address \<noteq> [] then entropy_loop address (set_iter address) 0 else Inr 0) of
        Inl e \<Rightarrow> Inl e
      | Inr ent \<Rightarrow>
          (let btc = (if startswith address ''1'' then 0
                      else if startswith address ''3'' then 1
                      else if startswith address ''bc1'' then 2
                      else 3);
               chain = (if chain_input = ''Ethereum'' then 1 else 0)
           in Inr \<lparr>length_val = length address, entropy = ent,
                    chain_val = chain, btc_type = btc\<rparr>))"

text \<open>
  The entropy of section 4.1 of the specification, written from its words:
  the sum over the distinct characters \<open>x\<close> of \<open>- p(x) * log2 (p(x))\<close>, where
  \<open>p(x) = count(x) / length\<close>.
\<close>

definition char_prob :: "'a list \<Rightarrow> 'a \<Rightarrow> real" where
  "char_prob s x = real (count_list s x) / real (length s)"

definition entropy_term :: "'a list \<Rightarrow> 'a \<Rightarrow> real" where
  "entropy_term s x = - char_prob s x * log 2 (char_prob s x)"

definition shannon_entropy :: "'a list \<Rightarrow> real" where
  "shannon_entropy s = (\<Sum>x\<in>set s. entropy_term s x)"

subsection \<open>Theme logic\<close>

text \<open>
  \<open>st.session_state\<close> holds one key, \<open>theme\<close>; \<open>None\<close> is the key not being there
  yet (the first run of a session).
\<close>

definition init_theme :: "string option \<Rightarrow> string" where
  "init_theme session = (case session of None \<Rightarrow> ''Dark'' | Some t \<Rightarrow> t)"

definition toggle_theme :: "string \<Rightarrow> string" where
  "toggle_theme theme = (if theme = ''Dark'' then ''Light'' else ''Dark'')"

record palette =
  bg_color :: string
  card_bg :: string
  text_color :: string
  border_color :: string
  chart_template :: string

definition palette_of :: "string \<Rightarrow> palette" where
  "palette_of theme =
     (if theme = ''Dark''
      then \<lparr>bg_color = ''#0e1117'', card_bg = ''rgba(255, 255, 255, 0.05)'',
            text_color = ''#ffffff'', border_color = ''rgba(255, 255, 255, 0.2)'',
            chart_template = ''plotly_dark''\<rparr>
      else \<lparr>bg_color = ''#ffffff'', card_bg = ''rgba(0, 0, 0, 0.05)'',
            text_color = ''#000000'', border_color = ''rgba(0, 0, 0, 0.1)'',
            chart_template = ''plotly_white''\<rparr>)"

subsection \<open>Loading the artifacts\<close>

text \<open>
  The unpickled bundle. The three fitted estimators come from the training script, which
  is not part of this program, so they are parameters: each is the function its
  \<open>transform\<close> or \<open>predict\<close> method computes on the single row the script passes
  (\<open>kmeans.predict(...)[0]\<close>, \<open>pca_coords[0]\<close> unpacked into two coordinates).
\<close>

record 'v artifacts =
  kmeans :: "real list \<Rightarrow> int"
  scaler :: "features \<Rightarrow> real list"
  pca :: "real list \<Rightarrow> real \<times> real"
  viz_data :: 'v

text \<open>The file \<open>unsupervised_pack.pkl\<close> as \<open>open(..., 'rb')\<close> finds it.\<close>

datatype 'f file_state = Absent | Unreadable | Present 'f

fun py_open :: "'f file_state \<Rightarrow> py_error + 'f" where
  "py_open Absent = Inl FileNotFoundError"
| "py_open Unreadable = Inl PermissionError"
| "py_open (Present f) = Inr f"

text \<open>
  \<open>except FileNotFoundError: return None\<close> is the only handler: any other exception
  leaves the function.
\<close>

definition handle_not_found :: "py_error \<Rightarrow> py_error + 'a option" where
  "handle_not_found e = (if e = FileNotFoundError then Inr None else Inl e)"

definition load_artifacts ::
  "('f \<Rightarrow> py_error + 'a) \<Rightarrow> 'f file_state \<Rightarrow> py_error + 'a option" where
  "load_artifacts pickle_load file =
     (case py_open file of
        Inl e \<Rightarrow> handle_not_found e
      | Inr f \<Rightarrow>
          (case pickle_load f of
             Inl e \<Rightarrow> handle_not_found e
           | Inr a \<Rightarrow> Inr (Some a)))"

text \<open>
  \<open>@st.cache_resource\<close>: the value returned by the first call that returns is kept for
  the life of the process and handed out afterwards without running the body; a call
  that raises stores nothing. \<open>None\<close> is an empty cache, \<open>Some r\<close> a stored result.
\<close>

definition load_artifacts_cached ::
  "('f \<Rightarrow> py_error + 'a) \<Rightarrow> 'f file_state \<Rightarrow> 'a option option
     \<Rightarrow> (py_error + 'a option) \<times> 'a option option" where
  "load_artifacts_cached pickle_load file cache =
     (case cache of
        Some r \<Rightarrow> (Inr r, cache)
      | None \<Rightarrow>
          (case load_artifacts pickle_load file of
             Inl e \<Rightarrow> (Inl e, cache)
           | Inr r \<Rightarrow> (Inr r, Some r)))"

subsection \<open>The results block\<close>

text \<open>\<open>math.sqrt\<close>: raises \<open>ValueError\<close> on a negative number.\<close>

definition py_sqrt :: "real \<Rightarrow> py_error + real" where
  "py_sqrt x = (if x < 0 then Inl ValueError else Inr (sqrt x))"

text \<open>
  \<^verbatim>\<open>
      dist = math.sqrt(user_x ** 2 + user_y ** 2)
      status = "Normal" if dist < 3 else "Anomaly"
      color = "normal" if dist < 3 else "inverse"
  \<close>
  returned as \<open>(dist, status, color)\<close>.
\<close>

definition deviation :: "real \<Rightarrow> real \<Rightarrow> py_error + real \<times> string \<times> string" where
  "deviation user_x user_y =
     (case py_sqrt (user_x ^ 2 + user_y ^ 2) of
        Inl e \<Rightarrow> Inl e
      | Inr d \<Rightarrow>
          Inr (d, if d < 3 then ''Normal'' else ''Anomaly'',
                  if d < 3 then ''normal'' else ''inverse''))"

text \<open>
  What one analysis computes and shows: the feature row, the cluster, the projected
  point, the deviation score with its label, the template of the chart (taken from the
  theme) and the start of the address in the hover text (\<open>user_address[:8]\<close>).
\<close>

record analysis =
  raw_features :: features
  cluster_id :: int
  user_x_val :: real
  user_y_val :: real
  dist_score :: real
  status :: string
  delta_color :: string
  template :: string
  hover_address :: string

definition analyze ::
  "'v artifacts \<Rightarrow> string \<Rightarrow> string \<Rightarrow> string \<Rightarrow> py_error + analysis" where
  "analyze art tmpl user_address chain_choice =
     (case get_features user_address chain_choice of
        Inl e \<Rightarrow> Inl e
      | Inr raw \<Rightarrow>
          (let scaled_features = scaler art raw;
               cid = kmeans art scaled_features;
               pca_coords = pca art scaled_features
           in case deviation (fst pca_coords) (snd pca_coords) of
                Inl e \<Rightarrow> Inl e
              | Inr (d, st, col) \<Rightarrow>
                  Inr \<lparr>raw_features = raw, cluster_id = cid,
                       user_x_val = fst pca_coords, user_y_val = snd pca_coords,
                       dist_score = d, status = st, delta_color = col,
                       template = tmpl, hover_address = take 8 user_address\<rparr>))"

subsection \<open>One run of the script\<close>

record 'v app_state =
  session_theme :: "string option"
  resource_cache :: "'v artifacts option option"

record inputs =
  chain_choice :: string
  user_address :: string
  analyze_btn :: bool

text \<open>
  What the body of the page ends up as: \<open>Halted\<close> is \<open>st.error\<close> followed by
  \<open>st.stop()\<close>, \<open>Idle\<close> a run without the button pressed, \<open>Prompted\<close> the
  \<open>st.info\<close> asking for an address, \<open>Analysed\<close> the results block.
\<close>

datatype body = Halted | Idle | Prompted | Analysed analysis

record page =
  colours :: palette
  content :: body
  footer_mode :: "string option"

definition script_run ::
  "('f \<Rightarrow> py_error + 'v artifacts) \<Rightarrow> 'f file_state \<Rightarrow> 'v app_state \<Rightarrow> inputs
     \<Rightarrow> (py_error + page) \<times> 'v app_state" where
  "script_run pickle_load file st inp =
     (let theme = init_theme (session_theme st);
          pal = palette_of theme;
          (loaded, cache') = load_artifacts_cached pickle_load file (resource_cache st);
          st' = \<lparr>session_theme = Some theme, resource_cache = cache'\<rparr>
      in case loaded of
           Inl e \<Rightarrow> (Inl e, st')
         | Inr None \<Rightarrow> (Inr \<lparr>colours = pal, content = Halted, footer_mode = None\<rparr>, st')
         | Inr (Some art) \<Rightarrow>
             (if analyze_btn inp then
                (if user_address inp \<noteq> [] then
                   (case analyze art (chart_template pal) (user_address inp) (chain_choice inp) of
                      Inl e \<Rightarrow> (Inl e, st')
                    | Inr a \<Rightarrow>
                        (Inr \<lparr>colours = pal, content = Analysed a, footer_mode = Some theme\<rparr>, st'))
                 else (Inr \<lparr>colours = pal, content = Prompted, footer_mode = Some theme\<rparr>, st'))
              else (Inr \<lparr>colours = pal, content = Idle, footer_mode = Some theme\<rparr>, st')))"

text \<open>The part of a run's outcome that the inference computes, if the run got that far.\<close>

definition inference_of :: "py_error + page \<Rightarrow> (py_error + (features \<times> int \<times> real \<times> real \<times> real) option)" where
  "inference_of r =
     (case r of
        Inl e \<Rightarrow> Inl e
      | Inr pg \<Rightarrow>
          (case content pg of
             Analysed a \<Rightarrow>
               Inr (Some (raw_features a, cluster_id a, user_x_val a, user_y_val a, dist_score a))
           | _ \<Rightarrow> Inr None))"

text \<open>
  A small bundle to run the script on: the scaler lists the four columns as they are,
  the clusterer separates rows by their first column, and the projector keeps the
  entropy and the prefix code.
\<close>

definition example_artifacts :: "unit artifacts" where
  "example_artifacts =
     \<lparr>kmeans = (\<lambda>v. if hd v < 40 then 0 else 1),
      scaler = (\<lambda>f. [real (length_val f), entropy f, of_int (chain_val f), of_int (btc_type f)]),
      pca = (\<lambda>v. (v ! 1, v ! 3)),
      viz_data = ()\<rparr>"

section \<open>Properties\<close>

subsection \<open>The entropy loop computes the Shannon entropy\<close>

lemma count_list_pos: "x \<in> set s \<Longrightarrow> 0 < count_list s x"
  by (induction s) auto

lemma char_prob_pos: "x \<in> set s \<Longrightarrow> 0 < char_prob s x"
  unfolding char_prob_def using count_list_pos[of x s]
  by (cases s) auto

lemma char_prob_le_1: "char_prob s x \<le> 1"
  unfolding char_prob_def using count_le_length[of s x]
  by (cases s) (auto simp: divide_le_eq)

lemma entropy_loop_step:
  assumes "x \<in> set address"
  shows "entropy_loop address (x # xs) e = entropy_loop address xs (e + entropy_term address x)"
proof -
  from assms have ne: "length address \<noteq> 0" by auto
  have d: "py_truediv (count_list address x) (length address) = Inr (char_prob address x)"
    using ne by (simp add: py_truediv_def char_prob_def)
  have l: "py_log2 (char_prob address x) = Inr (log 2 (char_prob address x))"
    using char_prob_pos[OF assms] by (simp add: py_log2_def)
  show ?thesis by (simp add: d l entropy_term_def)
qed

lemma entropy_loop_sum:
  "set xs \<subseteq> set address \<Longrightarrow>
   entropy_loop address xs e = Inr (e + sum_list (map (entropy_term address) xs))"
proof (induction xs arbitrary: e)
  case Nil
  then show ?case by simp
next
  case (Cons x xs)
  then have "x \<in> set address" "set xs \<subseteq> set address" by auto
  then show ?case using Cons.IH[of "e + entropy_term address x"]
    by (simp only: entropy_loop_step) (simp add: add.assoc)
qed

text \<open>
  Whatever order the set is walked in, the loop returns the accumulator plus the
  Shannon entropy, and it never raises.
\<close>

lemma entropy_loop_any_order:
  assumes "distinct ys" "set ys = set address"
  shows "entropy_loop address ys e = Inr (e + shannon_entropy address)"
proof -
  have "sum_list (map (entropy_term address) ys) = sum (entropy_term address) (set ys)"
    using assms(1) by (rule sum_list_distinct_conv_sum_set)
  also have "\<dots> = shannon_entropy address"
    by (simp add: assms(2) shannon_entropy_def)
  finally show ?thesis using entropy_loop_sum[of ys address e] assms(2) by simp
qed

lemma entropy_term_nonneg: "x \<in> set s \<Longrightarrow> 0 \<le> entropy_term s x"
proof -
  assume "x \<in> set s"
  then have p: "0 < char_prob s x" by (rule char_prob_pos)
  have "log 2 (char_prob s x) \<le> 0"
    using p char_prob_le_1[of s x] by simp
  then show ?thesis unfolding entropy_term_def using p
    by (simp add: mult_nonneg_nonpos2 mult_le_0_iff)
qed

lemma entropy_term_zero_iff:
  assumes "x \<in> set s"
  shows "entropy_term s x = 0 \<longleftrightarrow> count_list s x = length s"
proof -
  have p: "0 < char_prob s x" using assms by (rule char_prob_pos)
  have ne: "length s \<noteq> 0" using assms by auto
  have "entropy_term s x = 0 \<longleftrightarrow> log 2 (char_prob s x) = 0"
    unfolding entropy_term_def using p by simp
  also have "\<dots> \<longleftrightarrow> char_prob s x = 1"
  proof
    assume z: "log 2 (char_prob s x) = 0"
    have "\<not> char_prob s x < 1"
      using z p log_less_zero_cancel_iff[of 2 "char_prob s x"] by simp
    moreover have "\<not> 1 < char_prob s x"
      using z p zero_less_log_cancel_iff[of 2 "char_prob s x"] by simp
    ultimately show "char_prob s x = 1" by simp
  next
    assume "char_prob s x = 1"
    then show "log 2 (char_prob s x) = 0" by simp
  qed
  also have "\<dots> \<longleftrightarrow> count_list s x = length s"
    unfolding char_prob_def using ne by auto
  finally show ?thesis .
qed

lemma count_list_full: "count_list s x = length s \<longleftrightarrow> set s \<subseteq> {x}"
proof
  assume "count_list s x = length s"
  then show "set s \<subseteq> {x}"
  proof (induction s)
    case Nil then show ?case by simp
  next
    case (Cons a s)
    have "count_list s x \<le> length s" by (rule count_le_length)
    with Cons show ?case by (auto split: if_splits)
  qed
next
  assume "set s \<subseteq> {x}"
  then show "count_list s x = length s" by (induction s) auto
qed

lemma shannon_nonneg: "0 \<le> shannon_entropy s"
  unfolding shannon_entropy_def by (rule sum_nonneg) (rule entropy_term_nonneg)

lemma shannon_zero_iff:
  assumes "s \<noteq> []"
  shows "shannon_entropy s = 0 \<longleftrightarrow> (\<exists>c. s = replicate (length s) c)"
proof -
  have "shannon_entropy s = 0 \<longleftrightarrow> (\<forall>x\<in>set s. entropy_term s x = 0)"
    unfolding shannon_entropy_def
    by (rule sum_nonneg_eq_0_iff) (auto intro: entropy_term_nonneg)
  also have "\<dots> \<longleftrightarrow> (\<forall>x\<in>set s. set s \<subseteq> {x})"
    by (simp add: entropy_term_zero_iff count_list_full)
  also have "\<dots> \<longleftrightarrow> (\<exists>c. set s \<subseteq> {c})"
    using assms by (cases s) auto
  also have "\<dots> \<longleftrightarrow> (\<exists>c. s = replicate (length s) c)"
    by (metis count_list_full replicate_eqI set_replicate_conv_if empty_subsetI subset_refl singletonD subsetD)
  finally show ?thesis .
qed


subsection \<open>What \<open>get_features\<close> and the results block return\<close>

lemma shannon_entropy_Nil: "shannon_entropy [] = 0"
  by (simp add: shannon_entropy_def)

lemma get_features_eq:
  "get_features address chain_input =
     Inr \<lparr>length_val = length address, entropy = shannon_entropy address,
          chain_val = (if chain_input = ''Ethereum'' then 1 else 0),
          btc_type = (if startswith address ''1'' then 0
                      else if startswith address ''3'' then 1
                      else if startswith address ''bc1'' then 2
                      else 3)\<rparr>"
proof (cases "address = []")
  case True
  then show ?thesis by (simp add: get_features_def shannon_entropy_Nil)
next
  case False
  have "entropy_loop address (set_iter address) 0 = Inr (0 + shannon_entropy address)"
    unfolding set_iter_def by (rule entropy_loop_any_order) simp_all
  with False show ?thesis by (simp add: get_features_def)
qed

lemma deviation_eq:
  "deviation x y =
     Inr (sqrt (x ^ 2 + y ^ 2),
          if sqrt (x ^ 2 + y ^ 2) < 3 then ''Normal'' else ''Anomaly'',
          if sqrt (x ^ 2 + y ^ 2) < 3 then ''normal'' else ''inverse'')"
proof -
  have "\<not> x ^ 2 + y ^ 2 < 0" by (simp add: not_less)
  then show ?thesis by (simp add: deviation_def py_sqrt_def)
qed

lemma analyze_eq:
  "analyze art tmpl a c =
     (let raw = projr (get_features a c);
          xy = pca art (scaler art raw);
          d = sqrt (fst xy ^ 2 + snd xy ^ 2)
      in Inr \<lparr>raw_features = raw, cluster_id = kmeans art (scaler art raw),
               user_x_val = fst xy, user_y_val = snd xy, dist_score = d,
               status = (if d < 3 then ''Normal'' else ''Anomaly''),
               delta_color = (if d < 3 then ''normal'' else ''inverse''),
               template = tmpl, hover_address = take 8 a\<rparr>)"
  by (simp add: analyze_def get_features_eq deviation_eq Let_def)

subsection \<open>The theme reaches the page, and a loaded bundle reaches the results block\<close>

lemma theme_changes_colours:
  "chart_template (palette_of ''Dark'') \<noteq> chart_template (palette_of (toggle_theme ''Dark''))"
  by (simp add: palette_of_def toggle_theme_def)

lemma toggle_theme_twice: "toggle_theme (toggle_theme ''Dark'') = ''Dark''"
  by (simp add: toggle_theme_def)

lemma script_run_analysed:
  assumes "resource_cache st = Some (Some art)" and "analyze_btn inp" and "user_address inp \<noteq> []"
  shows "\<exists>a. analyze art (chart_template (palette_of (init_theme (session_theme st))))
               (user_address inp) (chain_choice inp) = Inr a \<and>
             content (projr (fst (script_run pickle_load file st inp))) = Analysed a"
  using assms
  by (simp add: script_run_def load_artifacts_cached_def analyze_eq Let_def)

lemma script_run_first_load:
  assumes "resource_cache st = None" and "pickle_load f = Inr art"
  shows "resource_cache (snd (script_run pickle_load (Present f) st inp)) = Some (Some art)"
  using assms
  by (simp add: script_run_def load_artifacts_cached_def load_artifacts_def analyze_eq Let_def)

section \<open>The claims\<close>

text \<open>
  C1: for every non-empty address \<open>s\<close>, the \<open>entropy\<close> column returned by
  \<open>get_features\<close> is the Shannon entropy of the character frequencies of \<open>s\<close>; it is
  at least 0, and it is 0 exactly when \<open>s\<close> is one character repeated.
  (Floats are read as reals.)
\<close>

theorem get_features_entropy_shannon:
  assumes "s \<noteq> []"
  shows "\<exists>f. get_features s chain_input = Inr f \<and> entropy f = shannon_entropy s \<and>
             0 \<le> entropy f \<and> (entropy f = 0 \<longleftrightarrow> (\<exists>c. s = replicate (length s) c))"
  using shannon_zero_iff[OF assms] shannon_nonneg[of s] by (simp add: get_features_eq)

theorem get_features_entropy_shannon_witness:
  "''ab'' \<noteq> [] \<and> (\<exists>f. get_features ''ab'' ''Bitcoin'' = Inr f \<and> entropy f = shannon_entropy ''ab'' \<and>
             0 \<le> entropy f \<and> entropy f \<noteq> 0)"
  using get_features_entropy_shannon[of "''ab''" "''Bitcoin''"]
  by auto

text \<open>
  C2: the \<open>btc_type\<close> column is 0 for an address starting with \<open>1\<close>, 1 for one starting
  with \<open>3\<close>, 2 for one starting with \<open>bc1\<close> and 3 for every other address; an address
  starting with \<open>0x\<close> gets 3.
\<close>

theorem get_features_btc_type:
  "\<exists>f. get_features address chain_input = Inr f \<and>
     (startswith address ''1'' \<longrightarrow> btc_type f = 0) \<and>
     (startswith address ''3'' \<longrightarrow> btc_type f = 1) \<and>
     (startswith address ''bc1'' \<longrightarrow> btc_type f = 2) \<and>
     (\<not> startswith address ''1'' \<and> \<not> startswith address ''3'' \<and>
      \<not> startswith address ''bc1'' \<longrightarrow> btc_type f = 3) \<and>
     (startswith address ''0x'' \<longrightarrow> btc_type f = 3)"
  by (cases address) (auto simp: get_features_eq startswith_def)

theorem get_features_btc_type_witness:
  "(\<exists>f. get_features ''1A1zP1eP5QGefi2DMPTfTL5SLmv7DivfNa'' ''Bitcoin'' = Inr f \<and> btc_type f = 0) \<and>
   (\<exists>f. get_features ''3J98t1WpEZ73CNmQviecrnyiWrnqRhWNLy'' ''Bitcoin'' = Inr f \<and> btc_type f = 1) \<and>
   (\<exists>f. get_features ''bc1qxy2kgdygjrsqtzq2n0yrf2493p83kkfjhx0wlh'' ''Bitcoin'' = Inr f \<and> btc_type f = 2) \<and>
   (\<exists>f. get_features ''0xde0B295669a9FD93d5F28D9Ec85E40f4cb697BAe'' ''Ethereum'' = Inr f \<and> btc_type f = 3) \<and>
   (\<exists>f. get_features ''tb1qw508d6qejxtdg4y5r3zarvary0c5xw7kxpjzsx'' ''Bitcoin'' = Inr f \<and> btc_type f = 3)"
  using get_features_btc_type[of "''1A1zP1eP5QGefi2DMPTfTL5SLmv7DivfNa''" "''Bitcoin''"]
        get_features_btc_type[of "''3J98t1WpEZ73CNmQviecrnyiWrnqRhWNLy''" "''Bitcoin''"]
        get_features_btc_type[of "''bc1qxy2kgdygjrsqtzq2n0yrf2493p83kkfjhx0wlh''" "''Bitcoin''"]
        get_features_btc_type[of "''0xde0B295669a9FD93d5F28D9Ec85E40f4cb697BAe''" "''Ethereum''"]
        get_features_btc_type[of "''tb1qw508d6qejxtdg4y5r3zarvary0c5xw7kxpjzsx''" "''Bitcoin''"]
  by (simp add: startswith_def)

text \<open>
  C3: for every pair of coordinates \<open>(x, y)\<close> the deviation score is
  \<open>sqrt (x\<^sup>2 + y\<^sup>2)\<close>, it is at least 0, and the label is \<open>Anomaly\<close> exactly when
  the score is at least 3 and \<open>Normal\<close> exactly when it is below 3.
  (Floats are read as reals.)
\<close>

theorem deviation_score_status:
  "\<exists>d st col. deviation x y = Inr (d, st, col) \<and> d = sqrt (x ^ 2 + y ^ 2) \<and> 0 \<le> d \<and>
     (st = ''Anomaly'' \<longleftrightarrow> 3 \<le> d) \<and> (st = ''Normal'' \<longleftrightarrow> d < 3)"
  by (simp add: deviation_eq)

text \<open>
  A file that is there but cannot be opened makes \<open>open\<close> raise \<open>PermissionError\<close>,
  which the only handler of \<open>load_artifacts\<close> does not catch: the exception leaves the
  function, and no \<open>None\<close> is returned.
\<close>

theorem load_artifacts_unreadable_counterexample:
  "load_artifacts Inr (Unreadable :: unit file_state) = Inl PermissionError \<and>
   load_artifacts Inr (Unreadable :: unit file_state) \<noteq> Inr None"
  by (simp add: load_artifacts_def handle_not_found_def)

text \<open>
  C4, for an absent file: if the artifact file is absent at load time,
  \<open>load_artifacts\<close> raises nothing and returns \<open>None\<close>; the run then stops at \<open>st.stop()\<close> before the results
  block, and since the \<open>None\<close> is cached every later run of the process stops there
  too, whatever the file, the inputs and the theme have become.
\<close>

theorem load_artifacts_absent_halts:
  "load_artifacts pickle_load Absent = Inr None \<and>
   (resource_cache st = None \<longrightarrow>
      script_run pickle_load Absent st inp =
        (Inr \<lparr>colours = palette_of (init_theme (session_theme st)), content = Halted,
              footer_mode = None\<rparr>,
         \<lparr>session_theme = Some (init_theme (session_theme st)), resource_cache = Some None\<rparr>)) \<and>
   (resource_cache st' = Some None \<longrightarrow>
      script_run pickle_load file st' inp' =
        (Inr \<lparr>colours = palette_of (init_theme (session_theme st')), content = Halted,
              footer_mode = None\<rparr>,
         \<lparr>session_theme = Some (init_theme (session_theme st')), resource_cache = Some None\<rparr>))"
  by (simp add: load_artifacts_def handle_not_found_def script_run_def
      load_artifacts_cached_def Let_def)

theorem load_artifacts_absent_halts_witness:
  "load_artifacts (Inr :: unit artifacts \<Rightarrow> py_error + unit artifacts) Absent = Inr None \<and>
   resource_cache \<lparr>session_theme = None, resource_cache = None :: unit artifacts option option\<rparr> = None \<and>
   resource_cache \<lparr>session_theme = Some ''Light'', resource_cache = Some (None :: unit artifacts option)\<rparr> = Some None \<and>
   inference_of (fst (script_run (Inr :: unit artifacts \<Rightarrow> py_error + unit artifacts) Absent
      \<lparr>session_theme = None, resource_cache = None\<rparr>
      \<lparr>chain_choice = ''Bitcoin'', user_address = ''1BoatSLRHtKNngkdXEeobR76b53LETtpyT'',
       analyze_btn = True\<rparr>)) = Inr None \<and>
   resource_cache (snd (script_run (Inr :: unit artifacts \<Rightarrow> py_error + unit artifacts) Absent
      \<lparr>session_theme = None, resource_cache = None\<rparr>
      \<lparr>chain_choice = ''Bitcoin'', user_address = ''1BoatSLRHtKNngkdXEeobR76b53LETtpyT'',
       analyze_btn = True\<rparr>)) = Some None \<and>
   content (projr (fst (script_run Inr (Present example_artifacts)
      \<lparr>session_theme = Some ''Light'', resource_cache = Some None\<rparr>
      \<lparr>chain_choice = ''Ethereum'', user_address = ''0xde0B295669a9FD93d5F28D9Ec85E40f4cb697BAe'',
       analyze_btn = True\<rparr>))) = Halted"
  using load_artifacts_absent_halts[of "Inr :: unit artifacts \<Rightarrow> py_error + unit artifacts"
          "\<lparr>session_theme = None, resource_cache = None\<rparr>"
          "\<lparr>chain_choice = ''Bitcoin'', user_address = ''1BoatSLRHtKNngkdXEeobR76b53LETtpyT'',
            analyze_btn = True\<rparr>"
          "\<lparr>session_theme = Some ''Light'', resource_cache = Some None\<rparr>"
          "Present example_artifacts"
          "\<lparr>chain_choice = ''Ethereum'', user_address = ''0xde0B295669a9FD93d5F28D9Ec85E40f4cb697BAe'',
            analyze_btn = True\<rparr>"]
  by (simp add: inference_of_def)

text \<open>
  C5: for the empty address \<open>get_features\<close> raises nothing and returns entropy 0 and
  length 0: the loop, and with it the division by the length, is skipped.
\<close>

theorem get_features_empty_address:
  "get_features [] chain_input =
     Inr \<lparr>length_val = 0, entropy = 0,
          chain_val = (if chain_input = ''Ethereum'' then 1 else 0), btc_type = 3\<rparr>"
  by (simp add: get_features_def startswith_def)



text \<open>
  C7: for the address \<open>1BoatSLRHtKNngkdXEeobR76b53LETtpyT\<close> and the chain selector
  \<open>Bitcoin\<close>, \<open>get_features\<close> returns \<open>btc_type\<close> 0, \<open>chain\<close> 0, \<open>length\<close> 34 and the
  Shannon entropy of that string, and the results block returns one cluster and one
  deviation score that is at least 0, whatever the bundle.
\<close>

theorem boat_address_end_to_end:
  "\<exists>f. get_features ''1BoatSLRHtKNngkdXEeobR76b53LETtpyT'' ''Bitcoin'' = Inr f \<and>
       btc_type f = 0 \<and> chain_val f = 0 \<and> length_val f = 34 \<and>
       entropy f = shannon_entropy ''1BoatSLRHtKNngkdXEeobR76b53LETtpyT'' \<and>
       (\<exists>r. analyze art tmpl ''1BoatSLRHtKNngkdXEeobR76b53LETtpyT'' ''Bitcoin'' = Inr r \<and>
            raw_features r = f \<and> cluster_id r = kmeans art (scaler art f) \<and>
            (user_x_val r, user_y_val r) = pca art (scaler art f) \<and>
            dist_score r = sqrt (user_x_val r ^ 2 + user_y_val r ^ 2) \<and>
            0 \<le> dist_score r)"
  by (simp add: analyze_eq get_features_eq startswith_def Let_def)

text \<open>
  C8: the theme is cosmetic: for every address, chain selector, bundle and file, two runs
  that differ only in the theme of the session compute the same feature row, cluster,
  coordinates and deviation score (or fail or stop alike), and leave the same cache.
\<close>

theorem theme_is_cosmetic:
  "inference_of (fst (script_run pickle_load file (st\<lparr>session_theme := th1\<rparr>) inp)) =
   inference_of (fst (script_run pickle_load file (st\<lparr>session_theme := th2\<rparr>) inp)) \<and>
   resource_cache (snd (script_run pickle_load file (st\<lparr>session_theme := th1\<rparr>) inp)) =
   resource_cache (snd (script_run pickle_load file (st\<lparr>session_theme := th2\<rparr>) inp))"
  by (simp add: script_run_def inference_of_def Let_def analyze_eq
      split: prod.splits sum.splits option.splits)

text \<open>
  C9: \<open>btc_type\<close> does not depend on the chain selector: \<open>get_features\<close> returns the
  same \<open>btc_type\<close> for \<open>Bitcoin\<close> and for \<open>Ethereum\<close>, so an address starting with
  \<open>1\<close> gets 0 also with \<open>Ethereum\<close> selected.
\<close>

theorem btc_type_ignores_chain:
  "\<exists>f g. get_features address ''Bitcoin'' = Inr f \<and> get_features address ''Ethereum'' = Inr g \<and>
      btc_type f = btc_type g \<and> (startswith address ''1'' \<longrightarrow> btc_type g = 0)"
  by (simp add: get_features_eq)

theorem btc_type_ignores_chain_witness:
  "startswith ''1BoatSLRHtKNngkdXEeobR76b53LETtpyT'' ''1'' \<and>
   (\<exists>f g. get_features ''1BoatSLRHtKNngkdXEeobR76b53LETtpyT'' ''Bitcoin'' = Inr f \<and>
          get_features ''1BoatSLRHtKNngkdXEeobR76b53LETtpyT'' ''Ethereum'' = Inr g \<and>
          chain_val f = 0 \<and> chain_val g = 1 \<and> btc_type f = 0 \<and> btc_type g = 0)"
  using btc_type_ignores_chain[of "''1BoatSLRHtKNngkdXEeobR76b53LETtpyT''"]
  by (auto simp: startswith_def get_features_eq)



end
